theory Spec2Isabelle
  imports Main "HOL-Library.Word" "HOL-Library.Monad_Syntax"
begin

unbundle bit_operations_syntax

section \<open>Go values\<close>

text \<open>
  The package \<^verbatim>\<open>sign\<close> (file \<^verbatim>\<open>internal/sign/TLSSigAPI.go\<close>) works on Go strings,
  byte slices and fixed-width integers. A Go string is a sequence of bytes and is
  modelled as a \<^typ>\<open>string\<close>; a byte slice is a \<^typ>\<open>8 word list\<close>, and a slice that
  may be \<^verbatim>\<open>nil\<close> is an \<^typ>\<open>8 word list option\<close> (\<open>None\<close> is \<^verbatim>\<open>nil\<close>, \<open>Some []\<close> is
  an empty slice that is not \<^verbatim>\<open>nil\<close>). Go's \<^verbatim>\<open>int\<close> is taken as 64 bits wide, like
  \<^verbatim>\<open>int64\<close>; signed and unsigned integers of one width share the word type and
  are told apart by the operations applied to them (\<open>sint\<close>, \<open>unat\<close>, \<open><s\<close>).
\<close>

type_synonym byte = "8 word"
type_synonym uint32 = "32 word"
type_synonym uint64 = "64 word"
type_synonym int64 = "64 word"
type_synonym go_int = "64 word"

definition byte_of_char :: "char \<Rightarrow> byte" where
  "byte_of_char c = of_char c"

text \<open>The conversion \<^verbatim>\<open>[]byte(s)\<close>, and indexing \<^verbatim>\<open>s[i]\<close> of a string.\<close>

definition bytes_of :: "string \<Rightarrow> byte list" where
  "bytes_of s = map byte_of_char s"

text \<open>\<^verbatim>\<open>len(s)\<close> as a Go \<^verbatim>\<open>int\<close>.\<close>

definition len :: "'a list \<Rightarrow> go_int" where
  "len xs = of_nat (length xs)"

section \<open>The user buffer encoder \<^verbatim>\<open>genUserBuf\<close>\<close>

text \<open>
  The four byte extractions that the source writes out for every 32-bit field,
  \<^verbatim>\<open>(byte)((x & 0xFF000000) >> 24)\<close> down to \<^verbatim>\<open>(byte)(x & 0x000000FF)\<close>. On \<^verbatim>\<open>uint32\<close>
  the shift is logical; on the signed \<^verbatim>\<open>int\<close> and \<^verbatim>\<open>int64\<close> it is arithmetic.
\<close>

definition u_byte3 :: "uint32 \<Rightarrow> byte" where
  "u_byte3 x = ucast (drop_bit 24 (x AND 0xFF000000))"

definition u_byte2 :: "uint32 \<Rightarrow> byte" where
  "u_byte2 x = ucast (drop_bit 16 (x AND 0x00FF0000))"

definition u_byte1 :: "uint32 \<Rightarrow> byte" where
  "u_byte1 x = ucast (drop_bit 8 (x AND 0x0000FF00))"

definition u_byte0 :: "uint32 \<Rightarrow> byte" where
  "u_byte0 x = ucast (x AND 0x000000FF)"

definition s_byte3 :: "int64 \<Rightarrow> byte" where
  "s_byte3 x = ucast (signed_drop_bit 24 (x AND 0xFF000000))"

definition s_byte2 :: "int64 \<Rightarrow> byte" where
  "s_byte2 x = ucast (signed_drop_bit 16 (x AND 0x00FF0000))"

definition s_byte1 :: "int64 \<Rightarrow> byte" where
  "s_byte1 x = ucast (signed_drop_bit 8 (x AND 0x0000FF00))"

definition s_byte0 :: "int64 \<Rightarrow> byte" where
  "s_byte0 x = ucast (x AND 0x000000FF)"

text \<open>
  The encoder fills a buffer of a length computed up front through a running
  \<^verbatim>\<open>offset\<close>. A cursor is the pair of the buffer and the offset. The statement pair
  \<^verbatim>\<open>userBuf[offset] = v; offset++\<close> is \<open>store\<close>; an index outside the buffer panics in
  Go, which is \<open>None\<close> here.
\<close>

type_synonym cursor = "byte list \<times> nat"

definition store :: "cursor \<Rightarrow> byte \<Rightarrow> cursor option" where
  "store c v =
     (case c of (userBuf, offset) \<Rightarrow>
        if offset < length userBuf then Some (userBuf[offset := v], offset + 1) else None)"

text \<open>
  Both copying loops have the shape
  \<^verbatim>\<open>for ; offset < bound; offset++ { userBuf[offset] = src[offset-base] }\<close>:
  the identity is copied with \<open>bound = len(account)+3\<close> and \<open>base = 3\<close>, the room
  string with \<open>bound = length\<close> and \<open>base = length-len(roomStr)\<close>. Either index
  out of range panics.
\<close>

function copy_loop :: "string \<Rightarrow> nat \<Rightarrow> nat \<Rightarrow> cursor \<Rightarrow> cursor option" where
  "copy_loop src bound base (userBuf, offset) =
     (if offset < bound then
        (if offset < length userBuf \<and> base \<le> offset \<and> offset - base < length src
         then copy_loop src bound base
                (userBuf[offset := byte_of_char (src ! (offset - base))], offset + 1)
         else None)
      else Some (userBuf, offset))"
  by pat_completeness auto
termination
  by (relation "measure (\<lambda>(src, bound, base, userBuf, offset). bound - offset)") auto

text \<open>
  \<^verbatim>\<open>genUserBuf\<close>. The first argument is the value \<^verbatim>\<open>time.Now().Unix()\<close> returns
  when the encoder reads the clock.
\<close>

definition genUserBuf ::
  "int64 \<Rightarrow> string \<Rightarrow> go_int \<Rightarrow> uint32 \<Rightarrow> go_int \<Rightarrow> uint32 \<Rightarrow> uint32 \<Rightarrow> string
     \<Rightarrow> byte list option" where
  "genUserBuf currTime account dwSdkappid dwAuthID dwExpTime dwPrivilegeMap dwAccountType roomStr =
     (let appid = (ucast dwSdkappid :: uint32);
          length0 = 1 + 2 + length account + 20 + length roomStr;
          length1 = (if length roomStr > 0 then length0 + 2 else length0);
          userBuf = replicate length1 (0 :: byte);
          expire = currTime + dwExpTime
      in do {
        c \<leftarrow> (if length roomStr > 0 then store (userBuf, 0) 1 else store (userBuf, 0) 0);
        c \<leftarrow> store c (s_byte1 (len account));
        c \<leftarrow> store c (s_byte0 (len account));
        c \<leftarrow> copy_loop account (length account + 3) 3 c;
        c \<leftarrow> store c (u_byte3 appid);
        c \<leftarrow> store c (u_byte2 appid);
        c \<leftarrow> store c (u_byte1 appid);
        c \<leftarrow> store c (u_byte0 appid);
        c \<leftarrow> store c (u_byte3 dwAuthID);
        c \<leftarrow> store c (u_byte2 dwAuthID);
        c \<leftarrow> store c (u_byte1 dwAuthID);
        c \<leftarrow> store c (u_byte0 dwAuthID);
        c \<leftarrow> store c (s_byte3 expire);
        c \<leftarrow> store c (s_byte2 expire);
        c \<leftarrow> store c (s_byte1 expire);
        c \<leftarrow> store c (s_byte0 expire);
        c \<leftarrow> store c (u_byte3 dwPrivilegeMap);
        c \<leftarrow> store c (u_byte2 dwPrivilegeMap);
        c \<leftarrow> store c (u_byte1 dwPrivilegeMap);
        c \<leftarrow> store c (u_byte0 dwPrivilegeMap);
        c \<leftarrow> store c (u_byte3 dwAccountType);
        c \<leftarrow> store c (u_byte2 dwAccountType);
        c \<leftarrow> store c (u_byte1 dwAccountType);
        c \<leftarrow> store c (u_byte0 dwAccountType);
        c \<leftarrow> (if length roomStr > 0 then do {
               c \<leftarrow> store c (s_byte1 (len roomStr));
               c \<leftarrow> store c (s_byte0 (len roomStr));
               copy_loop roomStr length1 (length1 - length roomStr) c
             } else Some c);
        Some (fst c)
      })"

text \<open>The layout the specification describes, field by field (big-endian).\<close>

definition be16 :: "16 word \<Rightarrow> byte list" where
  "be16 w = [ucast (drop_bit 8 w), ucast w]"

definition be32 :: "uint32 \<Rightarrow> byte list" where
  "be32 w = [ucast (drop_bit 24 w), ucast (drop_bit 16 w), ucast (drop_bit 8 w), ucast w]"

text \<open>Reading a big-endian byte sequence back as a number.\<close>

definition be_nat :: "byte list \<Rightarrow> nat" where
  "be_nat bs = foldl (\<lambda>a b. a * 256 + unat b) 0 bs"

definition userbuf_layout ::
  "string \<Rightarrow> uint32 \<Rightarrow> uint32 \<Rightarrow> uint32 \<Rightarrow> uint32 \<Rightarrow> uint32 \<Rightarrow> string \<Rightarrow> byte list" where
  "userbuf_layout identity applicationId resourceId absoluteExpiry privilegeBitmap
       accountTypeTag resourceString =
     [if resourceString = [] then 0 else 1]
     @ be16 (of_nat (length identity)) @ bytes_of identity
     @ be32 applicationId @ be32 resourceId @ be32 absoluteExpiry
     @ be32 privilegeBitmap @ be32 accountTypeTag
     @ (if resourceString = [] then []
        else be16 (of_nat (length resourceString)) @ bytes_of resourceString)"

section \<open>Errors\<close>

text \<open>
  The six error values the package declares, and \<open>LibraryError\<close> for an error value
  that a library call returns (base64, zlib or JSON); its text is not inspected.
  A Go \<^verbatim>\<open>error\<close> result is an optional error: \<open>None\<close> is \<^verbatim>\<open>nil\<close>.
\<close>

datatype error =
    ErrSdkAppIDNotMatch
  | ErrIdentifierNotMatch
  | ErrExpired
  | ErrUserBufTypeNotMatch
  | ErrUserBufNotMatch
  | ErrSigNotMatch
  | LibraryError string

section \<open>The token document \<^verbatim>\<open>userSig\<close>\<close>

record userSig =
  Version :: string
  Identifier :: string
  SdkAppID :: uint64
  Expire :: int64
  Time :: int64
  UserBuf :: "byte list option"
  Sig :: "byte list option"

text \<open>The zero value \<^verbatim>\<open>userSig{}\<close>.\<close>

definition userSig_zero :: userSig where
  "userSig_zero =
     \<lparr>Version = [], Identifier = [], SdkAppID = 0, Expire = 0, Time = 0,
      UserBuf = None, Sig = None\<rparr>"

text \<open>
  The struct tags name the JSON keys and mark every field \<^verbatim>\<open>omitempty\<close>. A JSON
  object over these keys is a record of optional values: \<open>None\<close> is a key that is
  not in the object.
\<close>

record json_object =
  TLS_ver :: "string option"
  TLS_identifier :: "string option"
  TLS_sdkappid :: "uint64 option"
  TLS_expire :: "int64 option"
  TLS_time :: "int64 option"
  TLS_userbuf :: "byte list option"
  TLS_sig :: "byte list option"

text \<open>
  Encoding a \<^verbatim>\<open>userSig\<close>: \<^verbatim>\<open>omitempty\<close> leaves out an empty string, a zero number and
  a slice of length zero (\<^verbatim>\<open>nil\<close> or not).
\<close>

definition omitempty_string :: "string \<Rightarrow> string option" where
  "omitempty_string s = (if s = [] then None else Some s)"

definition omitempty_number :: "64 word \<Rightarrow> 64 word option" where
  "omitempty_number n = (if n = 0 then None else Some n)"

definition omitempty_bytes :: "byte list option \<Rightarrow> byte list option" where
  "omitempty_bytes b = (case b of None \<Rightarrow> None | Some bs \<Rightarrow> if bs = [] then None else Some bs)"

text \<open>
  \<^verbatim>\<open>encoding/json\<close> writes a string value coerced to valid UTF-8: it reads the string
  rune by rune as \<^verbatim>\<open>utf8.DecodeRuneInString\<close> does and writes the replacement rune
  U+FFFD (the bytes EF BF BD) for every byte that does not start a well-formed
  rune. \<open>rune_size\<close> is the length of the well-formed rune at the head of the
  bytes, or 0 when there is none: the first byte gives the length and the range
  of the second byte, every later byte lies in 80..BF.
\<close>

definition replacement_rune :: string where
  "replacement_rune = [CHR 0xEF, CHR 0xBF, CHR 0xBD]"

definition continuation :: "nat \<Rightarrow> nat \<Rightarrow> nat \<Rightarrow> nat list \<Rightarrow> nat" where
  "continuation n lo hi rest =
     (if n \<le> length rest \<and> lo \<le> hd rest \<and> hd rest \<le> hi
         \<and> list_all (\<lambda>b. 0x80 \<le> b \<and> b \<le> 0xBF) (take (n - 1) (tl rest))
      then n + 1 else 0)"

definition rune_size :: "nat list \<Rightarrow> nat" where
  "rune_size bs =
     (case bs of
        [] \<Rightarrow> 0
      | b # rest \<Rightarrow>
          if b < 0x80 then 1
          else if b < 0xC2 then 0
          else if b \<le> 0xDF then continuation 1 0x80 0xBF rest
          else if b = 0xE0 then continuation 2 0xA0 0xBF rest
          else if b = 0xED then continuation 2 0x80 0x9F rest
          else if b \<le> 0xEF then continuation 2 0x80 0xBF rest
          else if b = 0xF0 then continuation 3 0x90 0xBF rest
          else if b \<le> 0xF3 then continuation 3 0x80 0xBF rest
          else if b = 0xF4 then continuation 3 0x80 0x8F rest
          else 0)"

function to_valid_utf8 :: "string \<Rightarrow> string" where
  "to_valid_utf8 s =
     (if s = [] then []
      else if rune_size (map of_char s) = 0 then replacement_rune @ to_valid_utf8 (tl s)
      else take (rune_size (map of_char s)) s
             @ to_valid_utf8 (drop (rune_size (map of_char s)) s))"
  by pat_completeness auto
termination
  by (relation "measure length") (auto simp add: neq_Nil_conv)

text \<open>
  The object written for a document: each field under its key, the empty ones
  left out, the strings coerced.
\<close>

definition marshal_fields :: "userSig \<Rightarrow> json_object" where
  "marshal_fields u =
     \<lparr>TLS_ver = map_option to_valid_utf8 (omitempty_string (Version u)),
      TLS_identifier = map_option to_valid_utf8 (omitempty_string (Identifier u)),
      TLS_sdkappid = omitempty_number (SdkAppID u),
      TLS_expire = omitempty_number (Expire u),
      TLS_time = omitempty_number (Time u),
      TLS_userbuf = omitempty_bytes (UserBuf u),
      TLS_sig = omitempty_bytes (Sig u)\<rparr>"

text \<open>
  Decoding into \<^verbatim>\<open>var sig userSig\<close>: a key of the object sets its field, a field
  without a key keeps its zero value.
\<close>

definition unmarshal_fields :: "json_object \<Rightarrow> userSig" where
  "unmarshal_fields j =
     \<lparr>Version = (case TLS_ver j of None \<Rightarrow> [] | Some s \<Rightarrow> s),
      Identifier = (case TLS_identifier j of None \<Rightarrow> [] | Some s \<Rightarrow> s),
      SdkAppID = (case TLS_sdkappid j of None \<Rightarrow> 0 | Some n \<Rightarrow> n),
      Expire = (case TLS_expire j of None \<Rightarrow> 0 | Some n \<Rightarrow> n),
      Time = (case TLS_time j of None \<Rightarrow> 0 | Some n \<Rightarrow> n),
      UserBuf = TLS_userbuf j,
      Sig = TLS_sig j\<rparr>"

section \<open>The libraries the package calls\<close>

text \<open>
  The functions of Go's standard library that the package calls, and the two
  helpers \<^verbatim>\<open>base64url\<close> and \<^verbatim>\<open>base64urlDecode\<close> of the package that this file does
  not define, are parameters of the model, collected in a record. The program
  only passes their results on, so every theorem below holds for each
  implementation of them.
  \<^item> \<open>hmac_sha256 key message\<close>: the MAC that \<^verbatim>\<open>hmac.New(sha256.New, key)\<close> returns
    from \<^verbatim>\<open>Sum(nil)\<close> after \<open>message\<close> was written to it.
  \<^item> \<open>json_Marshal\<close>, \<open>json_Unmarshal\<close>: the JSON text of an object, and parsing.
  \<^item> \<open>zlib_Write\<close>, \<open>zlib_Close\<close>: writing to the zlib writer (the state of the
    writer afterwards) and closing it (the bytes of the output buffer).
  \<^item> \<open>zlib_NewReader\<close>, \<open>ioutil_ReadAll\<close>, \<open>zlib_ReaderClose\<close>: the three calls on
    the zlib reader, each of which may return an error.
\<close>

record ('r, 'w) golib =
  hmac_sha256 :: "byte list \<Rightarrow> byte list \<Rightarrow> byte list"
  base64url_EncodeToString :: "byte list \<Rightarrow> string"
  base64urlDecode :: "string \<Rightarrow> error + byte list"
  json_Marshal :: "json_object \<Rightarrow> error + byte list"
  json_Unmarshal :: "byte list \<Rightarrow> error + json_object"
  zlib_Write :: "byte list \<Rightarrow> error + 'w"
  zlib_Close :: "'w \<Rightarrow> error + byte list"
  zlib_NewReader :: "byte list \<Rightarrow> error + 'r"
  ioutil_ReadAll :: "'r \<Rightarrow> error + (byte list \<times> 'r)"
  zlib_ReaderClose :: "'r \<Rightarrow> error option"

text \<open>\<^verbatim>\<open>strconv.FormatUint(n, 10)\<close> and \<^verbatim>\<open>strconv.FormatInt(n, 10)\<close>.\<close>

definition digit_char :: "nat \<Rightarrow> char" where
  "digit_char d = ''0123456789'' ! d"

fun decimal :: "nat \<Rightarrow> string" where
  "decimal n = (if n < 10 then [digit_char n] else decimal (n div 10) @ [digit_char (n mod 10)])"

definition FormatUint :: "uint64 \<Rightarrow> string" where
  "FormatUint n = decimal (unat n)"

definition FormatInt :: "int64 \<Rightarrow> string" where
  "FormatInt n = (if n <s 0 then CHR ''-'' # decimal (nat (- sint n)) else decimal (nat (sint n)))"

text \<open>\<^verbatim>\<open>base64.StdEncoding.EncodeToString\<close>: the standard alphabet, padded with \<^verbatim>\<open>=\<close>.\<close>

definition base64_alphabet :: string where
  "base64_alphabet = ''ABCDEFGHIJKLMNOPQRSTUVWXYZabcdefghijklmnopqrstuvwxyz0123456789+/''"

definition base64_char :: "nat \<Rightarrow> char" where
  "base64_char n = base64_alphabet ! (n mod 64)"

fun base64_StdEncoding :: "byte list \<Rightarrow> string" where
  "base64_StdEncoding [] = []"
| "base64_StdEncoding [a] =
     [base64_char (unat a div 4), base64_char (unat a mod 4 * 16), CHR ''='', CHR ''='']"
| "base64_StdEncoding [a, b] =
     [base64_char (unat a div 4), base64_char (unat a mod 4 * 16 + unat b div 16),
      base64_char (unat b mod 16 * 4), CHR ''='']"
| "base64_StdEncoding (a # b # c # rest) =
     [base64_char (unat a div 4), base64_char (unat a mod 4 * 16 + unat b div 16),
      base64_char (unat b mod 16 * 4 + unat c div 64), base64_char (unat c mod 64)]
     @ base64_StdEncoding rest"

text \<open>\<^verbatim>\<open>bytes.Equal\<close> compares contents; a \<^verbatim>\<open>nil\<close> slice equals an empty one.\<close>

definition slice_bytes :: "byte list option \<Rightarrow> byte list" where
  "slice_bytes b = (case b of None \<Rightarrow> [] | Some bs \<Rightarrow> bs)"

definition bytes_Equal :: "byte list option \<Rightarrow> byte list option \<Rightarrow> bool" where
  "bytes_Equal a b = (slice_bytes a = slice_bytes b)"

section \<open>The canonical signer \<^verbatim>\<open>sign\<close>\<close>

definition sigIdentifier :: "byte list" where "sigIdentifier = bytes_of ''TLS.identifier:''"
definition sigSdkAppID :: "byte list" where "sigSdkAppID = bytes_of ''TLS.sdkappid:''"
definition sigTime :: "byte list" where "sigTime = bytes_of ''TLS.time:''"
definition sigExpire :: "byte list" where "sigExpire = bytes_of ''TLS.expire:''"
definition sigUserBuf :: "byte list" where "sigUserBuf = bytes_of ''TLS.userbuf:''"
definition sigEnter :: "byte list" where "sigEnter = bytes_of [CHR 0x0A]"

text \<open>
  The running hash \<^verbatim>\<open>h\<close>: its key and the bytes written so far. \<^verbatim>\<open>h.Write(p)\<close> appends,
  \<^verbatim>\<open>h.Sum(nil)\<close> is the MAC of what was written.
\<close>

type_synonym hmac_state = "byte list \<times> byte list"

definition hmac_New :: "byte list \<Rightarrow> hmac_state" where
  "hmac_New key = (key, [])"

definition Write :: "hmac_state \<Rightarrow> byte list \<Rightarrow> hmac_state" where
  "Write h p = (fst h, snd h @ p)"

definition Sum :: "('r, 'w) golib \<Rightarrow> hmac_state \<Rightarrow> byte list" where
  "Sum L h = hmac_sha256 L (fst h) (snd h)"

definition sign :: "('r, 'w) golib \<Rightarrow> userSig \<Rightarrow> string \<Rightarrow> byte list" where
  "sign L u key =
     (let h = hmac_New (bytes_of key);
          h = Write h sigIdentifier;
          h = Write h (bytes_of (Identifier u));
          h = Write h sigEnter;
          h = Write h sigSdkAppID;
          h = Write h (bytes_of (FormatUint (SdkAppID u)));
          h = Write h sigEnter;
          h = Write h sigTime;
          h = Write h (bytes_of (FormatInt (Time u)));
          h = Write h sigEnter;
          h = Write h sigExpire;
          h = Write h (bytes_of (FormatInt (Expire u)));
          h = Write h sigEnter;
          h = (case UserBuf u of
                 Some userbuf \<Rightarrow>
                   Write (Write (Write h sigUserBuf) (bytes_of (base64_StdEncoding userbuf)))
                     sigEnter
               | None \<Rightarrow> h)
      in Sum L h)"

text \<open>
  The message of the specification, section 4.2: the signed lines in their order,
  the last one only when the user buffer is present.
\<close>

definition canonical_message ::
  "string \<Rightarrow> uint64 \<Rightarrow> int64 \<Rightarrow> int64 \<Rightarrow> byte list option \<Rightarrow> string" where
  "canonical_message identifier applicationId issuedAt expireSeconds userBuf =
     ''TLS.identifier:'' @ identifier @ [CHR 0x0A]
     @ ''TLS.sdkappid:'' @ FormatUint applicationId @ [CHR 0x0A]
     @ ''TLS.time:'' @ FormatInt issuedAt @ [CHR 0x0A]
     @ ''TLS.expire:'' @ FormatInt expireSeconds @ [CHR 0x0A]
     @ (case userBuf of
          None \<Rightarrow> []
        | Some b \<Rightarrow> ''TLS.userbuf:'' @ base64_StdEncoding b @ [CHR 0x0A])"

section \<open>The verifier\<close>

text \<open>
  \<^verbatim>\<open>verify\<close>; \<open>now\<close> is \<^verbatim>\<open>now.Unix()\<close>. The comparison of the expiration check is
  signed, and the sum \<^verbatim>\<open>u.Time+u.Expire\<close> wraps around as \<^verbatim>\<open>int64\<close> addition does.
\<close>

definition verify ::
  "('r, 'w) golib \<Rightarrow> userSig \<Rightarrow> uint64 \<Rightarrow> string \<Rightarrow> string \<Rightarrow> int64 \<Rightarrow> byte list option
     \<Rightarrow> error option" where
  "verify L u sdkappid key userid now userbuf =
     (if sdkappid \<noteq> SdkAppID u then Some ErrSdkAppIDNotMatch
      else if userid \<noteq> Identifier u then Some ErrIdentifierNotMatch
      else if Time u + Expire u <s now then Some ErrExpired
      else
        (case
           (if userbuf \<noteq> None then
              (if UserBuf u = None then Some ErrUserBufTypeNotMatch
               else if \<not> bytes_Equal userbuf (UserBuf u) then Some ErrUserBufNotMatch
               else None)
            else if UserBuf u \<noteq> None then Some ErrUserBufTypeNotMatch
            else None)
         of
           Some err \<Rightarrow> Some err
         | None \<Rightarrow>
             if \<not> bytes_Equal (Some (sign L u key)) (Sig u) then Some ErrSigNotMatch
             else None))"

section \<open>The envelope: \<^verbatim>\<open>genSig\<close> and \<^verbatim>\<open>newUserSig\<close>\<close>

text \<open>
  \<^verbatim>\<open>genSig\<close>; \<open>currTime\<close> is the value \<^verbatim>\<open>time.Now().Unix()\<close> returns. The conversions
  \<^verbatim>\<open>uint64(sdkappid)\<close> and \<^verbatim>\<open>int64(expire)\<close> keep the 64 bits of the \<^verbatim>\<open>int\<close>. The
  writer taken from the pool is reset before use and behaves as a new one.
  Both results are returned: the string and the error.
\<close>

definition genSig ::
  "('r, 'w) golib \<Rightarrow> int64 \<Rightarrow> go_int \<Rightarrow> string \<Rightarrow> string \<Rightarrow> go_int \<Rightarrow> byte list option
     \<Rightarrow> string \<times> error option" where
  "genSig L currTime sdkappid key identifier expire userbuf =
     (let sigDoc = \<lparr>Version = ''2.0'', Identifier = identifier, SdkAppID = sdkappid,
                     Expire = expire, Time = currTime, UserBuf = userbuf, Sig = None\<rparr>;
          sigDoc = sigDoc\<lparr>Sig := Some (sign L sigDoc key)\<rparr>
      in case json_Marshal L (marshal_fields sigDoc) of
           Inl err \<Rightarrow> ([], Some err)
         | Inr text \<Rightarrow>
             (case zlib_Write L text of
                Inl err \<Rightarrow> ([], Some err)
              | Inr w \<Rightarrow>
                  (case zlib_Close L w of
                     Inl err \<Rightarrow> ([], Some err)
                   | Inr b \<Rightarrow> (base64url_EncodeToString L b, None))))"

definition GenUserSig ::
  "('r, 'w) golib \<Rightarrow> int64 \<Rightarrow> go_int \<Rightarrow> string \<Rightarrow> string \<Rightarrow> go_int \<Rightarrow> string \<times> error option" where
  "GenUserSig L currTime sdkappid key userid expire =
     genSig L currTime sdkappid key userid expire None"

definition GenUserSigWithBuf ::
  "('r, 'w) golib \<Rightarrow> int64 \<Rightarrow> go_int \<Rightarrow> string \<Rightarrow> string \<Rightarrow> go_int \<Rightarrow> byte list option
     \<Rightarrow> string \<times> error option" where
  "GenUserSigWithBuf L currTime sdkappid key userid expire buf =
     genSig L currTime sdkappid key userid expire buf"

text \<open>
  \<^verbatim>\<open>newUserSig\<close>. Each failing library call returns the zero document with the
  call's error, except the last: when \<^verbatim>\<open>json.Unmarshal\<close> fails, the source returns
  \<^verbatim>\<open>userSig{}, nil\<close>.
\<close>

definition newUserSig :: "('r, 'w) golib \<Rightarrow> string \<Rightarrow> userSig \<times> error option" where
  "newUserSig L usersig =
     (case base64urlDecode L usersig of
        Inl err \<Rightarrow> (userSig_zero, Some err)
      | Inr b \<Rightarrow>
          (case zlib_NewReader L b of
             Inl err \<Rightarrow> (userSig_zero, Some err)
           | Inr r \<Rightarrow>
               (case ioutil_ReadAll L r of
                  Inl err \<Rightarrow> (userSig_zero, Some err)
                | Inr (data, r') \<Rightarrow>
                    (case zlib_ReaderClose L r' of
                       Some err \<Rightarrow> (userSig_zero, Some err)
                     | None \<Rightarrow>
                         (case json_Unmarshal L data of
                            Inl err \<Rightarrow> (userSig_zero, None)
                          | Inr j \<Rightarrow> (unmarshal_fields j, None))))))"

definition VerifyUserSig ::
  "('r, 'w) golib \<Rightarrow> uint64 \<Rightarrow> string \<Rightarrow> string \<Rightarrow> string \<Rightarrow> int64 \<Rightarrow> error option" where
  "VerifyUserSig L sdkappid key userid usersig now =
     (case newUserSig L usersig of
        (sig, Some err) \<Rightarrow> Some err
      | (sig, None) \<Rightarrow> verify L sig sdkappid key userid now None)"

definition VerifyUserSigWithBuf ::
  "('r, 'w) golib \<Rightarrow> uint64 \<Rightarrow> string \<Rightarrow> string \<Rightarrow> string \<Rightarrow> int64 \<Rightarrow> byte list option
     \<Rightarrow> error option" where
  "VerifyUserSigWithBuf L sdkappid key userid usersig now userbuf =
     (case newUserSig L usersig of
        (sig, Some err) \<Rightarrow> Some err
      | (sig, None) \<Rightarrow> verify L sig sdkappid key userid now userbuf)"

section \<open>Notions used to state the properties\<close>

text \<open>The document \<^verbatim>\<open>genSig\<close> builds and signs, before it is packed.\<close>

definition signed_doc ::
  "('r, 'w) golib \<Rightarrow> int64 \<Rightarrow> go_int \<Rightarrow> string \<Rightarrow> string \<Rightarrow> go_int \<Rightarrow> byte list option
     \<Rightarrow> userSig" where
  "signed_doc L currTime sdkappid key identifier expire userbuf =
     (let sigDoc = \<lparr>Version = ''2.0'', Identifier = identifier, SdkAppID = sdkappid,
                     Expire = expire, Time = currTime, UserBuf = userbuf, Sig = None\<rparr>
      in sigDoc\<lparr>Sig := Some (sign L sigDoc key)\<rparr>)"

text \<open>
  What the envelope needs from the libraries for one JSON object \<open>j\<close>: writing \<open>j\<close>
  as JSON, compressing and encoding it succeed, and decoding, decompressing and
  parsing the result succeed and give \<open>j\<close> back.
\<close>

definition round_trips :: "('r, 'w) golib \<Rightarrow> json_object \<Rightarrow> bool" where
  "round_trips L j =
     (case json_Marshal L j of
        Inl err \<Rightarrow> False
      | Inr text \<Rightarrow>
          (case zlib_Write L text of
             Inl err \<Rightarrow> False
           | Inr w \<Rightarrow>
               (case zlib_Close L w of
                  Inl err \<Rightarrow> False
                | Inr b \<Rightarrow>
                    (case base64urlDecode L (base64url_EncodeToString L b) of
                       Inl err \<Rightarrow> False
                     | Inr b' \<Rightarrow>
                         (case zlib_NewReader L b' of
                            Inl err \<Rightarrow> False
                          | Inr r \<Rightarrow>
                              (case ioutil_ReadAll L r of
                                 Inl err \<Rightarrow> False
                               | Inr (data, r') \<Rightarrow>
                                   zlib_ReaderClose L r' = None
                                   \<and> json_Unmarshal L data = Inr j))))))"

text \<open>
  The table of section 4.4 of the specification, steps 2 to 6: each check with
  the condition under which it fails and its failure kind, in order. Verification
  stops at the first check that fails.
\<close>

definition verify_checks ::
  "('r, 'w) golib \<Rightarrow> userSig \<Rightarrow> uint64 \<Rightarrow> string \<Rightarrow> string \<Rightarrow> int64 \<Rightarrow> byte list option
     \<Rightarrow> (bool \<times> error) list" where
  "verify_checks L u sdkappid key userid now userbuf =
     [(SdkAppID u \<noteq> sdkappid, ErrSdkAppIDNotMatch),
      (Identifier u \<noteq> userid, ErrIdentifierNotMatch),
      (Time u + Expire u <s now, ErrExpired),
      ((userbuf = None) \<noteq> (UserBuf u = None), ErrUserBufTypeNotMatch),
      (slice_bytes userbuf \<noteq> slice_bytes (UserBuf u), ErrUserBufNotMatch),
      (sign L u key \<noteq> slice_bytes (Sig u), ErrSigNotMatch)]"

definition first_failure :: "(bool \<times> error) list \<Rightarrow> error option" where
  "first_failure checks = map_option snd (find fst checks)"

text \<open>The prefix of the buffer written so far, followed by \<open>k\<close> bytes still zero.\<close>

definition filled :: "byte list \<Rightarrow> nat \<Rightarrow> byte list" where
  "filled bs k = bs @ replicate k 0"

section \<open>A sample library\<close>

text \<open>
  A small implementation of the library record, on which the theorems are
  instantiated at concrete inputs. It is not Go's library: its MAC is the key
  followed by the message, its compression and its readers pass the bytes on,
  its base64url writes each byte as the character of the same code, and its JSON
  text gives each of the seven keys a presence byte and, when present, the bytes
  of the value, each after a byte 1, closed by a byte 0.
\<close>

definition char_of_byte :: "byte \<Rightarrow> char" where
  "char_of_byte b = char_of (unat b)"

definition word_bytes :: "64 word \<Rightarrow> byte list" where
  "word_bytes w = be32 (ucast (drop_bit 32 w)) @ be32 (ucast w)"

definition bytes_word :: "byte list \<Rightarrow> 64 word" where
  "bytes_word bs =
     word_cat (of_nat (be_nat (take 4 bs)) :: uint32) (of_nat (be_nat (drop 4 bs)) :: uint32)"

definition sample_put :: "byte list option \<Rightarrow> byte list" where
  "sample_put f =
     (case f of None \<Rightarrow> [0] | Some bs \<Rightarrow> 1 # concat (map (\<lambda>b. [1, b]) bs) @ [0])"

fun sample_bytes :: "byte list \<Rightarrow> (byte list \<times> byte list) option" where
  "sample_bytes [] = None"
| "sample_bytes (t # rest) =
     (if t = 0 then Some ([], rest)
      else (case rest of
              [] \<Rightarrow> None
            | b # rest' \<Rightarrow>
                (case sample_bytes rest' of
                   None \<Rightarrow> None
                 | Some (bs, r) \<Rightarrow> Some (b # bs, r))))"

definition sample_get :: "byte list \<Rightarrow> (byte list option \<times> byte list) option" where
  "sample_get bs =
     (case bs of
        [] \<Rightarrow> None
      | t # rest \<Rightarrow>
          if t = 0 then Some (None, rest)
          else (case sample_bytes rest of
                  None \<Rightarrow> None
                | Some (v, r) \<Rightarrow> Some (Some v, r)))"

definition sample_Marshal :: "json_object \<Rightarrow> error + byte list" where
  "sample_Marshal j =
     Inr (concat (map sample_put
       [map_option bytes_of (TLS_ver j), map_option bytes_of (TLS_identifier j),
        map_option word_bytes (TLS_sdkappid j), map_option word_bytes (TLS_expire j),
        map_option word_bytes (TLS_time j), TLS_userbuf j, TLS_sig j]))"

definition sample_Unmarshal :: "byte list \<Rightarrow> error + json_object" where
  "sample_Unmarshal bs =
     (case do {
        (ver, bs) \<leftarrow> sample_get bs;
        (identifier, bs) \<leftarrow> sample_get bs;
        (sdkappid, bs) \<leftarrow> sample_get bs;
        (expire, bs) \<leftarrow> sample_get bs;
        (time, bs) \<leftarrow> sample_get bs;
        (userbuf, bs) \<leftarrow> sample_get bs;
        (sig, bs) \<leftarrow> sample_get bs;
        if bs = [] then
          Some \<lparr>TLS_ver = map_option (map char_of_byte) ver,
                TLS_identifier = map_option (map char_of_byte) identifier,
                TLS_sdkappid = map_option bytes_word sdkappid,
                TLS_expire = map_option bytes_word expire,
                TLS_time = map_option bytes_word time,
                TLS_userbuf = userbuf,
                TLS_sig = sig\<rparr>
        else None
      } of
        None \<Rightarrow> Inl (LibraryError ''json: syntax error'')
      | Some j \<Rightarrow> Inr j)"

definition sample_lib :: "(byte list, byte list) golib" where
  "sample_lib =
     \<lparr>hmac_sha256 = (\<lambda>key message. key @ message),
      base64url_EncodeToString = map char_of_byte,
      base64urlDecode = (\<lambda>s. Inr (bytes_of s)),
      json_Marshal = sample_Marshal,
      json_Unmarshal = sample_Unmarshal,
      zlib_Write = Inr,
      zlib_Close = Inr,
      zlib_NewReader = Inr,
      ioutil_ReadAll = (\<lambda>r. Inr (r, r)),
      zlib_ReaderClose = (\<lambda>r. None)\<rparr>"

section \<open>The encoder: layout and field values\<close>

declare copy_loop.simps [simp del]
declare to_valid_utf8.simps [simp del]
declare decimal.simps [simp del]

lemma length_bytes_of [simp]: "length (bytes_of s) = length s"
  by (simp add: bytes_of_def)

lemma filled_init: "replicate n 0 = filled [] n"
  by (simp add: filled_def)

lemma filled_done: "filled bs 0 = bs"
  by (simp add: filled_def)

lemma store_filled:
  "offset = length bs \<Longrightarrow> 0 < k \<Longrightarrow>
     store (filled bs k, offset) v = Some (filled (bs @ [v]) (k - 1), Suc offset)"
  by (cases k) (simp_all add: store_def filled_def list_update_append)

text \<open>
  A copying loop that starts at the end of the written prefix, with room for the
  rest of the source, appends the rest of the source and never panics.
\<close>

lemma copy_loop_filled:
  "offset = length bs \<Longrightarrow> base \<le> offset \<Longrightarrow> bound = base + length src \<Longrightarrow>
   offset \<le> bound \<Longrightarrow> bound - offset \<le> k \<Longrightarrow>
     copy_loop src bound base (filled bs k, offset) =
       Some (filled (bs @ bytes_of (drop (offset - base) src)) (k - (bound - offset)), bound)"
proof (induction "bound - offset" arbitrary: bs k offset)
  case 0
  then show ?case by (simp add: bytes_of_def copy_loop.simps)
next
  case (Suc n)
  from Suc.prems Suc.hyps(2) have lt: "offset < bound" and kpos: "0 < k" by simp_all
  from Suc.prems lt have idx: "offset - base < length src" by simp
  have upd: "(filled bs k)[offset := v] = filled (bs @ [v]) (k - 1)" for v
    using Suc.prems(1) kpos by (cases k) (simp_all add: filled_def list_update_append)
  have len: "offset < length (filled bs k)"
    using Suc.prems(1) kpos by (simp add: filled_def)
  have step: "copy_loop src bound base (filled bs k, offset) =
      copy_loop src bound base
        (filled (bs @ [byte_of_char (src ! (offset - base))]) (k - 1), Suc offset)"
    using lt idx len Suc.prems(2) by (simp add: upd copy_loop.simps [of _ _ _ "filled bs k"])
  have IH: "copy_loop src bound base
        (filled (bs @ [byte_of_char (src ! (offset - base))]) (k - 1), Suc offset) =
      Some (filled ((bs @ [byte_of_char (src ! (offset - base))])
                      @ bytes_of (drop (Suc offset - base) src))
              (k - 1 - (bound - Suc offset)), bound)"
    using Suc.prems Suc.hyps(2) lt by (intro Suc.hyps(1)) simp_all
  have dr: "drop (offset - base) src = src ! (offset - base) # drop (Suc offset - base) src"
    using idx Suc.prems(2) by (simp add: Cons_nth_drop_Suc Suc_diff_le)
  show ?case
    unfolding step IH using lt
    by (simp add: dr bytes_of_def)
qed

lemma genUserBuf_bytes:
  "genUserBuf currTime account dwSdkappid dwAuthID dwExpTime dwPrivilegeMap dwAccountType roomStr =
     Some ([if roomStr = [] then 0 else 1]
       @ [s_byte1 (len account), s_byte0 (len account)] @ bytes_of account
       @ [u_byte3 (ucast dwSdkappid), u_byte2 (ucast dwSdkappid),
          u_byte1 (ucast dwSdkappid), u_byte0 (ucast dwSdkappid)]
       @ [u_byte3 dwAuthID, u_byte2 dwAuthID, u_byte1 dwAuthID, u_byte0 dwAuthID]
       @ [s_byte3 (currTime + dwExpTime), s_byte2 (currTime + dwExpTime),
          s_byte1 (currTime + dwExpTime), s_byte0 (currTime + dwExpTime)]
       @ [u_byte3 dwPrivilegeMap, u_byte2 dwPrivilegeMap,
          u_byte1 dwPrivilegeMap, u_byte0 dwPrivilegeMap]
       @ [u_byte3 dwAccountType, u_byte2 dwAccountType,
          u_byte1 dwAccountType, u_byte0 dwAccountType]
       @ (if roomStr = [] then []
          else [s_byte1 (len roomStr), s_byte0 (len roomStr)] @ bytes_of roomStr))"
proof (cases "roomStr = []")
  case True
  then show ?thesis
    by (simp add: genUserBuf_def Let_def filled_init store_filled copy_loop_filled filled_done)
next
  case False
  then show ?thesis
    by (simp add: genUserBuf_def Let_def filled_init store_filled copy_loop_filled filled_done)
qed

text \<open>The masks select one byte each, so every extraction is a shift and a truncation.\<close>

lemma mask_byte3: "(0xFF000000 :: 'a::len word) = push_bit 24 (mask 8)"
  by (simp add: mask_eq_exp_minus_1 push_bit_eq_mult)

lemma mask_byte2: "(0xFF0000 :: 'a::len word) = push_bit 16 (mask 8)"
  by (simp add: mask_eq_exp_minus_1 push_bit_eq_mult)

lemma mask_byte1: "(0xFF00 :: 'a::len word) = push_bit 8 (mask 8)"
  by (simp add: mask_eq_exp_minus_1 push_bit_eq_mult)

lemma mask_byte0: "(0xFF :: 'a::len word) = mask 8"
  by (simp add: mask_eq_exp_minus_1)

lemma u_byte3_eq: "u_byte3 x = ucast (drop_bit 24 x)"
  unfolding u_byte3_def mask_byte3 by (rule bit_word_eqI) (auto simp add: bit_simps)

lemma u_byte2_eq: "u_byte2 x = ucast (drop_bit 16 x)"
  unfolding u_byte2_def mask_byte2 by (rule bit_word_eqI) (auto simp add: bit_simps)

lemma u_byte1_eq: "u_byte1 x = ucast (drop_bit 8 x)"
  unfolding u_byte1_def mask_byte1 by (rule bit_word_eqI) (auto simp add: bit_simps)

lemma u_byte0_eq: "u_byte0 x = ucast x"
  unfolding u_byte0_def mask_byte0 by (rule bit_word_eqI) (auto simp add: bit_simps)

lemma s_byte3_eq: "s_byte3 x = ucast (drop_bit 24 (ucast x :: uint32))"
  unfolding s_byte3_def mask_byte3 by (rule bit_word_eqI) (auto simp add: bit_simps)

lemma s_byte2_eq: "s_byte2 x = ucast (drop_bit 16 (ucast x :: uint32))"
  unfolding s_byte2_def mask_byte2 by (rule bit_word_eqI) (auto simp add: bit_simps)

lemma s_byte1_eq: "s_byte1 x = ucast (drop_bit 8 (ucast x :: uint32))"
  unfolding s_byte1_def mask_byte1 by (rule bit_word_eqI) (auto simp add: bit_simps)

lemma s_byte0_eq: "s_byte0 x = ucast (ucast x :: uint32)"
  unfolding s_byte0_def mask_byte0 by (rule bit_word_eqI) (auto simp add: bit_simps)

lemma s_byte1_eq16: "s_byte1 x = ucast (drop_bit 8 (ucast x :: 16 word))"
  unfolding s_byte1_def mask_byte1 by (rule bit_word_eqI) (auto simp add: bit_simps)

lemma s_byte0_eq16: "s_byte0 x = ucast (ucast x :: 16 word)"
  unfolding s_byte0_def mask_byte0 by (rule bit_word_eqI) (auto simp add: bit_simps)

lemma u_be32: "[u_byte3 x, u_byte2 x, u_byte1 x, u_byte0 x] = be32 x"
  by (simp add: be32_def u_byte3_eq u_byte2_eq u_byte1_eq u_byte0_eq)

lemma s_be32: "[s_byte3 x, s_byte2 x, s_byte1 x, s_byte0 x] = be32 (ucast x)"
  by (simp add: be32_def s_byte3_eq s_byte2_eq s_byte1_eq s_byte0_eq)

lemma ucast_of_nat_16: "(ucast (word_of_nat n :: 64 word) :: 16 word) = word_of_nat n"
  by (rule bit_word_eqI) (auto simp add: bit_simps)

lemma len_be16: "[s_byte1 (len xs), s_byte0 (len xs)] = be16 (of_nat (length xs))"
  by (simp add: be16_def s_byte1_eq16 s_byte0_eq16 len_def ucast_of_nat_16)

lemma unat_byte_of:
  "unat (ucast (drop_bit k x) :: byte) = unat x div 2 ^ k mod 256" for x :: "'a::len word"
  by (simp add: unsigned_ucast_eq take_bit_eq_mod unat_drop_bit_eq) (simp add: drop_bit_eq_div)

lemma unat_byte_of0: "unat (ucast x :: byte) = unat x mod 256" for x :: "'a::len word"
  by (simp add: unsigned_ucast_eq take_bit_eq_mod)

lemma split256: "(n::nat) = n div 256 * 256 + n mod 256"
  by simp

text \<open>Reading the big-endian bytes of a word gives the word back.\<close>

lemma be_nat_be32: "be_nat (be32 w) = unat w"
proof -
  define n where "n = unat w"
  have lt: "n < 2 ^ 32" unfolding n_def using unsigned_less [of w] by simp
  have d2: "n div 2 ^ 16 = n div 256 div 256" by (simp add: div_mult2_eq)
  have d3: "n div 2 ^ 24 = n div 256 div 256 div 256" by (simp add: div_mult2_eq)
  have top: "n div 256 div 256 div 256 < 256" using lt unfolding d3 [symmetric] by simp
  have b3: "unat (ucast (drop_bit 24 w) :: byte) = n div 256 div 256 div 256"
    unfolding unat_byte_of n_def [symmetric] d3 using top by simp
  have b2: "unat (ucast (drop_bit 16 w) :: byte) = n div 256 div 256 mod 256"
    unfolding unat_byte_of n_def [symmetric] d2 by simp
  have b1: "unat (ucast (drop_bit 8 w) :: byte) = n div 256 mod 256"
    unfolding unat_byte_of n_def [symmetric] by simp
  have b0: "unat (ucast w :: byte) = n mod 256"
    unfolding unat_byte_of0 n_def [symmetric] by simp
  have "be_nat (be32 w) =
      ((n div 256 div 256 div 256 * 256 + n div 256 div 256 mod 256) * 256
        + n div 256 mod 256) * 256 + n mod 256"
    unfolding be_nat_def be32_def foldl.simps b3 b2 b1 b0 by simp
  also have "\<dots> = n"
    using split256 [of n] split256 [of "n div 256"] split256 [of "n div 256 div 256"] by simp
  finally show ?thesis by (simp add: n_def)
qed

lemma be_nat_be16: "be_nat (be16 w) = unat w"
proof -
  define n where "n = unat w"
  have lt: "n < 2 ^ 16" unfolding n_def using unsigned_less [of w] by simp
  then have top: "n div 256 < 256" by simp
  have b1: "unat (ucast (drop_bit 8 w) :: byte) = n div 256"
    unfolding unat_byte_of n_def [symmetric] using top by simp
  have b0: "unat (ucast w :: byte) = n mod 256"
    unfolding unat_byte_of0 n_def [symmetric] by simp
  have "be_nat (be16 w) = n div 256 * 256 + n mod 256"
    unfolding be_nat_def be16_def foldl.simps b1 b0 by simp
  then show ?thesis by (simp add: n_def)
qed

lemma unat_of_nat_16: "unat (word_of_nat n :: 16 word) = n mod 2 ^ 16"
  by (simp add: unat_of_nat)

text \<open>
  Truncating a 64-bit integer to 32 bits reduces its signed value modulo \<open>2 ^ 32\<close>,
  and the wrap-around of the 64-bit sum does not show in its low 32 bits.
\<close>

lemma uint_mod_32: "uint (x :: 64 word) mod 2 ^ 32 = sint x mod 2 ^ 32"
proof -
  have "uint x = sint x mod 2 ^ 64"
    using uint_sint [of x] by (simp add: take_bit_eq_mod)
  then have "uint x mod 2 ^ 32 = sint x mod 2 ^ 64 mod 2 ^ 32" by simp
  also have "\<dots> = sint x mod 2 ^ 32"
    by (rule mod_mod_cancel) simp
  finally show ?thesis .
qed

lemma uint_ucast_32: "uint (ucast (x :: 64 word) :: uint32) = sint x mod 2 ^ 32"
proof -
  have "uint (ucast x :: uint32) = uint x mod 2 ^ 32"
    by (simp add: unsigned_ucast_eq take_bit_eq_mod)
  then show ?thesis by (simp only: uint_mod_32)
qed

lemma sint_add_mod_32: "sint (a + b :: 64 word) mod 2 ^ 32 = (sint a + sint b) mod 2 ^ 32"
proof -
  have "sint (a + b) mod 2 ^ 32 = uint (a + b) mod 2 ^ 32"
    by (simp only: uint_mod_32)
  also have "\<dots> = (uint a + uint b) mod 2 ^ 64 mod 2 ^ 32"
    by (simp add: uint_word_ariths)
  also have "\<dots> = (uint a + uint b) mod 2 ^ 32"
    by (rule mod_mod_cancel) simp
  also have "\<dots> = (uint a mod 2 ^ 32 + uint b mod 2 ^ 32) mod 2 ^ 32"
    by (simp only: mod_add_eq)
  also have "\<dots> = (sint a mod 2 ^ 32 + sint b mod 2 ^ 32) mod 2 ^ 32"
    by (simp only: uint_mod_32)
  also have "\<dots> = (sint a + sint b) mod 2 ^ 32"
    by (simp only: mod_add_eq)
  finally show ?thesis .
qed

lemma be_nat_ucast_32: "int (be_nat (be32 (ucast (x :: 64 word)))) = sint x mod 2 ^ 32"
  using uint_ucast_32 [of x] by (simp add: be_nat_be32)

lemma length_be32 [simp]: "length (be32 w) = 4"
  by (simp add: be32_def)

lemma length_be16 [simp]: "length (be16 w) = 2"
  by (simp add: be16_def)

lemma genUserBuf_layout:
  "genUserBuf currTime account dwSdkappid dwAuthID dwExpTime dwPrivilegeMap dwAccountType roomStr =
     Some (userbuf_layout account (ucast dwSdkappid) dwAuthID (ucast (currTime + dwExpTime))
             dwPrivilegeMap dwAccountType roomStr)"
proof -
  have "[if roomStr = [] then 0 else 1]
       @ [s_byte1 (len account), s_byte0 (len account)] @ bytes_of account
       @ [u_byte3 (ucast dwSdkappid), u_byte2 (ucast dwSdkappid),
          u_byte1 (ucast dwSdkappid), u_byte0 (ucast dwSdkappid)]
       @ [u_byte3 dwAuthID, u_byte2 dwAuthID, u_byte1 dwAuthID, u_byte0 dwAuthID]
       @ [s_byte3 (currTime + dwExpTime), s_byte2 (currTime + dwExpTime),
          s_byte1 (currTime + dwExpTime), s_byte0 (currTime + dwExpTime)]
       @ [u_byte3 dwPrivilegeMap, u_byte2 dwPrivilegeMap,
          u_byte1 dwPrivilegeMap, u_byte0 dwPrivilegeMap]
       @ [u_byte3 dwAccountType, u_byte2 dwAccountType,
          u_byte1 dwAccountType, u_byte0 dwAccountType]
       @ (if roomStr = [] then []
          else [s_byte1 (len roomStr), s_byte0 (len roomStr)] @ bytes_of roomStr)
     = userbuf_layout account (ucast dwSdkappid) dwAuthID (ucast (currTime + dwExpTime))
             dwPrivilegeMap dwAccountType roomStr"
    unfolding userbuf_layout_def u_be32 s_be32 len_be16 by simp
  then show ?thesis by (simp only: genUserBuf_bytes)
qed

lemma field_slice: "length P = k \<Longrightarrow> length F = m \<Longrightarrow> take m (drop k (P @ F @ S)) = F"
  by simp

text \<open>
  Claim C8. For every identity, application id, resource id, duration, privilege
  bitmap, account type tag and resource string, the encoder returns (it does not
  panic) a byte sequence that is the layout of the specification: the format
  version, the identity length, the identity, the application id, the resource
  id, the absolute expiry, the privilege bitmap, the account type tag and, in
  variant 1 only, the resource string length and the resource string. Its length
  is \<open>1 + 2 + len(identity) + 20\<close> when the resource string is empty and
  \<open>1 + 2 + len(identity) + 20 + 2 + len(resourceString)\<close> otherwise, and its first
  byte is 0 in the first case and 1 in the second.
\<close>

theorem genUserBuf_length_and_layout:
  "\<exists>buf. genUserBuf currTime identity applicationId resourceId durationSeconds privilegeBitmap
             accountTypeTag resourceString = Some buf
     \<and> buf = userbuf_layout identity (ucast applicationId) resourceId
               (ucast (currTime + durationSeconds)) privilegeBitmap accountTypeTag resourceString
     \<and> length buf = (if resourceString = [] then 1 + 2 + length identity + 20
                     else 1 + 2 + length identity + 20 + 2 + length resourceString)
     \<and> buf ! 0 = (if resourceString = [] then 0 else 1)"
  by (simp add: genUserBuf_layout) (simp add: userbuf_layout_def)

text \<open>The encoder on a string resource and on a numeric resource, byte by byte.\<close>

theorem genUserBuf_length_and_layout_witness:
  "genUserBuf 1700000000 ''alice'' 1400000000 0 86400 255 0 ''room42'' =
     Some [1, 0, 5, 97, 108, 105, 99, 101, 83, 114, 78, 0, 0, 0, 0, 0, 101, 85, 66, 128,
           0, 0, 0, 255, 0, 0, 0, 0, 0, 6, 114, 111, 111, 109, 52, 50]
   \<and> genUserBuf 1700000000 ''alice'' 1400000000 42 86400 255 0 [] =
     Some [0, 0, 5, 97, 108, 105, 99, 101, 83, 114, 78, 0, 0, 0, 0, 42, 101, 85, 66, 128,
           0, 0, 0, 255, 0, 0, 0, 0]"
  using genUserBuf_length_and_layout [of 1700000000 "''alice''" 1400000000 0 86400 255 0 "''room42''"]
    genUserBuf_length_and_layout [of 1700000000 "''alice''" 1400000000 42 86400 255 0 "[]"]
  by (simp add: userbuf_layout_def be16_def be32_def bytes_of_def byte_of_char_def)

text \<open>
  Claim C9. For every input, each multi-byte field of the encoder's output, read
  big-endian, is the value truncated to the field's width: the identity length
  and the resource string length modulo \<open>2 ^ 16\<close>; the application id, a signed
  64-bit \<^verbatim>\<open>int\<close> of the caller, modulo \<open>2 ^ 32\<close> (a negative or larger value wraps);
  the absolute expiry, the low 32 bits of the clock value plus the duration; the
  resource id, the privilege bitmap and the account type tag as they are.
\<close>

theorem genUserBuf_fields_big_endian:
  "\<exists>buf. genUserBuf currTime identity applicationId resourceId durationSeconds privilegeBitmap
             accountTypeTag resourceString = Some buf
     \<and> be_nat (take 2 (drop 1 buf)) = length identity mod 2 ^ 16
     \<and> int (be_nat (take 4 (drop (3 + length identity) buf))) = sint applicationId mod 2 ^ 32
     \<and> be_nat (take 4 (drop (7 + length identity) buf)) = unat resourceId
     \<and> int (be_nat (take 4 (drop (11 + length identity) buf)))
         = (sint currTime + sint durationSeconds) mod 2 ^ 32
     \<and> be_nat (take 4 (drop (15 + length identity) buf)) = unat privilegeBitmap
     \<and> be_nat (take 4 (drop (19 + length identity) buf)) = unat accountTypeTag
     \<and> (resourceString \<noteq> [] \<longrightarrow>
          be_nat (take 2 (drop (23 + length identity) buf)) = length resourceString mod 2 ^ 16)"
proof -
  define V :: "byte list" where "V = [if resourceString = [] then 0 else 1]"
  define N where "N = be16 (of_nat (length identity))"
  define I where "I = bytes_of identity"
  define A where "A = be32 (ucast applicationId)"
  define R where "R = be32 resourceId"
  define E where "E = be32 (ucast (currTime + durationSeconds))"
  define P where "P = be32 privilegeBitmap"
  define T where "T = be32 accountTypeTag"
  define M where "M = be16 (of_nat (length resourceString))"
  define S where "S = bytes_of resourceString"
  define buf where
    "buf = V @ N @ I @ A @ R @ E @ P @ T @ (if resourceString = [] then [] else M @ S)"
  note defs = V_def N_def I_def A_def R_def E_def P_def T_def M_def S_def
  have gen: "genUserBuf currTime identity applicationId resourceId durationSeconds privilegeBitmap
             accountTypeTag resourceString = Some buf"
    unfolding buf_def defs by (simp add: genUserBuf_layout userbuf_layout_def)
  have sN: "take 2 (drop 1 buf) = N"
    unfolding buf_def by (rule field_slice) (simp_all add: defs)
  have sA: "take 4 (drop (3 + length identity) buf) = A"
    using field_slice [of "V @ N @ I" "3 + length identity" A 4]
    unfolding buf_def by (simp add: defs)
  have sR: "take 4 (drop (7 + length identity) buf) = R"
    using field_slice [of "V @ N @ I @ A" "7 + length identity" R 4]
    unfolding buf_def by (simp add: defs)
  have sE: "take 4 (drop (11 + length identity) buf) = E"
    using field_slice [of "V @ N @ I @ A @ R" "11 + length identity" E 4]
    unfolding buf_def by (simp add: defs)
  have sP: "take 4 (drop (15 + length identity) buf) = P"
    using field_slice [of "V @ N @ I @ A @ R @ E" "15 + length identity" P 4]
    unfolding buf_def by (simp add: defs)
  have sT: "take 4 (drop (19 + length identity) buf) = T"
    using field_slice [of "V @ N @ I @ A @ R @ E @ P" "19 + length identity" T 4]
    unfolding buf_def by (simp add: defs)
  have sM: "take 2 (drop (23 + length identity) buf) = M" if "resourceString \<noteq> []"
    using field_slice [of "V @ N @ I @ A @ R @ E @ P @ T" "23 + length identity" M 2 S] that
    unfolding buf_def by (simp add: defs)
  have "be_nat N = length identity mod 2 ^ 16"
    unfolding N_def by (simp only: be_nat_be16 unat_of_nat_16)
  moreover have "int (be_nat A) = sint applicationId mod 2 ^ 32"
    unfolding A_def by (rule be_nat_ucast_32)
  moreover have "be_nat R = unat resourceId"
    unfolding R_def by (rule be_nat_be32)
  moreover have "int (be_nat E) = (sint currTime + sint durationSeconds) mod 2 ^ 32"
    unfolding E_def by (simp only: be_nat_ucast_32 sint_add_mod_32)
  moreover have "be_nat P = unat privilegeBitmap"
    unfolding P_def by (rule be_nat_be32)
  moreover have "be_nat T = unat accountTypeTag"
    unfolding T_def by (rule be_nat_be32)
  moreover have "be_nat M = length resourceString mod 2 ^ 16"
    unfolding M_def by (simp only: be_nat_be16 unat_of_nat_16)
  ultimately show ?thesis
    using gen sN sA sR sE sP sT sM by auto
qed

text \<open>An application id of \<open>-1\<close> is written as \<open>2 ^ 32 - 1\<close>.\<close>

theorem genUserBuf_fields_big_endian_witness:
  "\<exists>buf. genUserBuf 1700000000 ''alice'' (- 1) 7 86400 255 0 ''room42'' = Some buf
     \<and> be_nat (take 2 (drop 1 buf)) = 5
     \<and> int (be_nat (take 4 (drop 8 buf))) = 4294967295
     \<and> be_nat (take 4 (drop 12 buf)) = 7
     \<and> int (be_nat (take 4 (drop 16 buf))) = 1700086400
     \<and> be_nat (take 4 (drop 20 buf)) = 255
     \<and> be_nat (take 4 (drop 24 buf)) = 0
     \<and> be_nat (take 2 (drop 28 buf)) = 6"
  using genUserBuf_fields_big_endian [of 1700000000 "''alice''" "- 1" 7 86400 255 0 "''room42''"]
  by simp

section \<open>The sample library\<close>

lemma inj_sample_mac: "inj (hmac_sha256 sample_lib k)"
  by (simp add: sample_lib_def inj_def)

lemma char_of_byte_of_char [simp]: "char_of_byte (byte_of_char c) = c"
proof -
  have "unat (of_char c :: byte) = unat (of_nat (of_char c) :: byte)"
    by (simp only: of_nat_of_char)
  also have "\<dots> = of_char c mod 256"
    by (simp add: unat_of_nat)
  also have "\<dots> = of_char c"
    by (rule of_char_mod_256)
  finally show ?thesis by (simp add: char_of_byte_def byte_of_char_def)
qed

lemma byte_of_char_of_byte [simp]: "byte_of_char (char_of_byte b) = b"
proof -
  have "(of_char (char_of (unat b)) :: byte) = of_nat (of_char (char_of (unat b)))"
    by (simp only: of_nat_of_char)
  also have "\<dots> = of_nat (unat b mod 256)" by simp
  also have "\<dots> = b"
  proof -
    have "unat b < 2 ^ LENGTH(8)" by (rule unsigned_less)
    then show ?thesis by simp
  qed
  finally show ?thesis by (simp add: char_of_byte_def byte_of_char_def)
qed

lemma map_char_of_byte_bytes_of [simp]: "map char_of_byte (bytes_of s) = s"
  by (simp add: bytes_of_def map_idI)

lemma bytes_of_map_char_of_byte [simp]: "bytes_of (map char_of_byte bs) = bs"
  by (simp add: bytes_of_def map_idI)

lemma sample_bytes_put:
  "sample_bytes (concat (map (\<lambda>b. [1, b]) bs) @ 0 # rest) = Some (bs, rest)"
  by (induction bs) simp_all

lemma sample_get_put: "sample_get (sample_put f @ rest) = Some (f, rest)"
  by (cases f) (simp_all add: sample_get_def sample_put_def sample_bytes_put)

lemma sample_get_put_last: "sample_get (sample_put f) = Some (f, [])"
  using sample_get_put [of f "[]"] by simp

lemma bytes_word_bytes [simp]: "bytes_word (word_bytes w) = w"
proof -
  have "word_cat (ucast (drop_bit 32 w) :: uint32) (ucast w :: uint32) = w"
    by (rule bit_word_eqI) (auto simp add: bit_simps)
  then show ?thesis
    by (simp add: bytes_word_def word_bytes_def be_nat_be32)
qed

lemma sample_json_round_trip:
  "\<exists>text. sample_Marshal j = Inr text \<and> sample_Unmarshal text = Inr j"
  by (simp add: sample_Marshal_def sample_Unmarshal_def sample_get_put sample_get_put_last
        option.map_comp comp_def option.map_ident)

text \<open>The sample library packs and unpacks every JSON object.\<close>

lemma sample_round_trips: "round_trips sample_lib j"
  using sample_json_round_trip [of j]
  by (auto simp add: round_trips_def sample_lib_def)

lemmas format_eval = FormatUint_def FormatInt_def decimal.simps digit_char_def word_sless_alt
  base64_char_def base64_alphabet_def

section \<open>The signer\<close>

lemma sign_message:
  "sign L u key = hmac_sha256 L (bytes_of key)
     (bytes_of (canonical_message (Identifier u) (SdkAppID u) (Time u) (Expire u) (UserBuf u)))"
  by (cases "UserBuf u")
     (simp_all add: sign_def canonical_message_def Let_def hmac_New_def Write_def Sum_def
        sigIdentifier_def sigSdkAppID_def sigTime_def sigExpire_def sigUserBuf_def sigEnter_def
        bytes_of_def)

lemma sign_cong:
  "Identifier u = Identifier v \<Longrightarrow> SdkAppID u = SdkAppID v \<Longrightarrow> Time u = Time v \<Longrightarrow>
   Expire u = Expire v \<Longrightarrow> UserBuf u = UserBuf v \<Longrightarrow> sign L u key = sign L v key"
  by (simp add: sign_message)

text \<open>
  Claim C2. For every key and every document, \<^verbatim>\<open>sign\<close> returns the HMAC, keyed by
  the bytes of the key, of the concatenation in this order of
  \<^verbatim>\<open>TLS.identifier:\<close>, the identifier and a newline; \<^verbatim>\<open>TLS.sdkappid:\<close>, the decimal
  application id and a newline; \<^verbatim>\<open>TLS.time:\<close>, the decimal issue time and a newline;
  \<^verbatim>\<open>TLS.expire:\<close>, the decimal duration and a newline; and, only when the user
  buffer is not \<^verbatim>\<open>nil\<close>, \<^verbatim>\<open>TLS.userbuf:\<close>, the standard base64 text of the buffer and
  a newline. The signature field is not part of the message (nor is the version).
\<close>

theorem sign_is_hmac_of_canonical_message:
  "sign L u key = hmac_sha256 L (bytes_of key)
     (bytes_of (canonical_message (Identifier u) (SdkAppID u) (Time u) (Expire u) (UserBuf u)))
   \<and> sign L (u\<lparr>Sig := s\<rparr>) key = sign L u key
   \<and> sign L (u\<lparr>Version := v\<rparr>) key = sign L u key"
  by (simp add: sign_message)

text \<open>The message signed for a document with a four-byte user buffer.\<close>

theorem sign_is_hmac_of_canonical_message_witness:
  "sign sample_lib
     \<lparr>Version = ''2.0'', Identifier = ''alice'', SdkAppID = 1400000000, Expire = 86400,
      Time = 1700000000, UserBuf = Some [1, 2, 3, 4], Sig = None\<rparr> ''key''
   = bytes_of ''key'' @ bytes_of
       (''TLS.identifier:alice'' @ [CHR 0x0A] @ ''TLS.sdkappid:1400000000'' @ [CHR 0x0A]
        @ ''TLS.time:1700000000'' @ [CHR 0x0A] @ ''TLS.expire:86400'' @ [CHR 0x0A]
        @ ''TLS.userbuf:AQIDBA=='' @ [CHR 0x0A])"
  using sign_is_hmac_of_canonical_message [of sample_lib
     "\<lparr>Version = ''2.0'', Identifier = ''alice'', SdkAppID = 1400000000, Expire = 86400,
      Time = 1700000000, UserBuf = Some [1, 2, 3, 4], Sig = None\<rparr>" "''key''"]
  by (simp add: sample_lib_def canonical_message_def format_eval)

lemma canonical_message_userbuf:
  "canonical_message i a t e (Some b) =
     canonical_message i a t e None @ ''TLS.userbuf:'' @ base64_StdEncoding b @ [CHR 0x0A]"
  by (simp add: canonical_message_def)

lemma canonical_messages_differ:
  "bytes_of (canonical_message i a t e None) \<noteq> bytes_of (canonical_message i a t e (Some b))"
proof
  assume "bytes_of (canonical_message i a t e None) = bytes_of (canonical_message i a t e (Some b))"
  then have "length (canonical_message i a t e None) = length (canonical_message i a t e (Some b))"
    by (metis length_bytes_of)
  then show False
    by (simp add: canonical_message_userbuf)
qed

section \<open>The verifier\<close>

lemma verify_first_failure:
  "verify L u sdkappid key userid now userbuf =
     first_failure (verify_checks L u sdkappid key userid now userbuf)"
  by (cases userbuf; cases "UserBuf u")
     (auto simp add: verify_def verify_checks_def first_failure_def bytes_Equal_def slice_bytes_def)

lemma verify_reaches_userbuf:
  assumes "sdkappid = SdkAppID u" "userid = Identifier u" "\<not> Time u + Expire u <s now"
  shows "verify L u sdkappid key userid now userbuf =
     (if (userbuf = None) \<noteq> (UserBuf u = None) then Some ErrUserBufTypeNotMatch
      else if slice_bytes userbuf \<noteq> slice_bytes (UserBuf u) then Some ErrUserBufNotMatch
      else if sign L u key \<noteq> slice_bytes (Sig u) then Some ErrSigNotMatch
      else None)"
  using assms unfolding verify_first_failure
  by (cases userbuf; cases "UserBuf u") (auto simp add: verify_checks_def first_failure_def)

text \<open>
  Claim C3. For every document and every expected application id, identity,
  current time and expected user buffer, \<^verbatim>\<open>verify\<close> returns the error of the first
  check that fails, in the order application id, identifier, expiration, user
  buffer presence, user buffer bytes, signature; it returns \<^verbatim>\<open>nil\<close> if and only if
  every check passes. When the application id mismatches, the application
  mismatch error is returned whatever the identifier is; the identifier error
  needs a matching application id.
\<close>

theorem verify_order_and_success:
  "verify L u sdkappid key userid now userbuf =
     first_failure (verify_checks L u sdkappid key userid now userbuf)
   \<and> ((verify L u sdkappid key userid now userbuf = None) =
        (sdkappid = SdkAppID u \<and> userid = Identifier u \<and> \<not> Time u + Expire u <s now
         \<and> (userbuf = None) = (UserBuf u = None)
         \<and> slice_bytes userbuf = slice_bytes (UserBuf u)
         \<and> sign L u key = slice_bytes (Sig u)))
   \<and> (sdkappid \<noteq> SdkAppID u \<longrightarrow>
        verify L u sdkappid key userid now userbuf = Some ErrSdkAppIDNotMatch)
   \<and> (sdkappid = SdkAppID u \<and> userid \<noteq> Identifier u \<longrightarrow>
        verify L u sdkappid key userid now userbuf = Some ErrIdentifierNotMatch)"
  unfolding verify_first_failure
  by (auto simp add: verify_checks_def first_failure_def)

text \<open>
  Both the application id and the identifier mismatch: the application error is
  returned. Only the identifier mismatches: the identifier error is returned.
\<close>

theorem verify_order_and_success_witness:
  "verify sample_lib
     \<lparr>Version = ''2.0'', Identifier = ''alice'', SdkAppID = 1400000000, Expire = 86400,
      Time = 1700000000, UserBuf = None, Sig = None\<rparr>
     1400000001 ''key'' ''bob'' 1700000000 None = Some ErrSdkAppIDNotMatch
   \<and> verify sample_lib
     \<lparr>Version = ''2.0'', Identifier = ''alice'', SdkAppID = 1400000000, Expire = 86400,
      Time = 1700000000, UserBuf = None, Sig = None\<rparr>
     1400000000 ''key'' ''bob'' 1700000000 None = Some ErrIdentifierNotMatch"
proof -
  note app = verify_order_and_success [of sample_lib
     "\<lparr>Version = ''2.0'', Identifier = ''alice'', SdkAppID = 1400000000, Expire = 86400,
      Time = 1700000000, UserBuf = None, Sig = None\<rparr>"
     1400000001 "''key''" "''bob''" 1700000000 None,
     THEN conjunct2, THEN conjunct2, THEN conjunct1]
  note ident = verify_order_and_success [of sample_lib
     "\<lparr>Version = ''2.0'', Identifier = ''alice'', SdkAppID = 1400000000, Expire = 86400,
      Time = 1700000000, UserBuf = None, Sig = None\<rparr>"
     1400000000 "''key''" "''bob''" 1700000000 None,
     THEN conjunct2, THEN conjunct2, THEN conjunct2]
  from app ident show ?thesis by simp
qed

lemma no_overflow_sint_add:
  fixes t e :: int64
  assumes "- (2 ^ 63) \<le> sint t + sint e" "sint t + sint e < 2 ^ 63"
  shows "sint (t + e) = sint t + sint e"
  using assms by (simp add: sint_word_add signed_take_bit_int_eq_self)

text \<open>
  Claim C4 as it is written fails where \<open>issuedAt + expireSeconds\<close> leaves the range
  of \<^verbatim>\<open>int64\<close>: the sum \<^verbatim>\<open>u.Time+u.Expire\<close> wraps around. A document issued at
  1700000000 with the largest duration is reported expired one second later,
  long before \<open>t + e\<close>.
\<close>

theorem verify_expiry_overflow_counterexample:
  "sint (1700000001 :: int64) \<le> sint (1700000000 :: int64) + sint (0x7FFFFFFFFFFFFFFF :: int64)
   \<and> verify sample_lib
     \<lparr>Version = ''2.0'', Identifier = ''alice'', SdkAppID = 1400000000,
      Expire = 0x7FFFFFFFFFFFFFFF, Time = 1700000000, UserBuf = None, Sig = None\<rparr>
     1400000000 ''key'' ''alice'' 1700000001 None = Some ErrExpired"
  by (simp add: verify_def word_sless_alt)

text \<open>
  Claim C4, amended. For every document with \<open>issuedAt = t\<close> and
  \<open>expireSeconds = e\<close> whose sum \<open>t + e\<close> lies in the range of \<^verbatim>\<open>int64\<close>, verified with
  the document's application id and identifier, the result is the expired error
  exactly when \<open>now > t + e\<close>: the expiration check passes at every \<open>now \<le> t + e\<close>,
  in particular at \<open>now = t + e\<close>, and fails at every \<open>now > t + e\<close>, in particular at
  \<open>now = t + e + 1\<close> when that is still an \<^verbatim>\<open>int64\<close>.
\<close>

theorem verify_expired_iff:
  assumes "- (2 ^ 63) \<le> sint (Time u) + sint (Expire u)"
      and "sint (Time u) + sint (Expire u) < 2 ^ 63"
  shows "((verify L u (SdkAppID u) key (Identifier u) now userbuf = Some ErrExpired)
           = (sint (Time u) + sint (Expire u) < sint now))
       \<and> verify L u (SdkAppID u) key (Identifier u) (Time u + Expire u) userbuf \<noteq> Some ErrExpired
       \<and> (sint (Time u) + sint (Expire u) + 1 < 2 ^ 63 \<longrightarrow>
            verify L u (SdkAppID u) key (Identifier u) (Time u + Expire u + 1) userbuf
              = Some ErrExpired)"
proof -
  have sum: "sint (Time u + Expire u) = sint (Time u) + sint (Expire u)"
    using assms by (rule no_overflow_sint_add)
  have iff: "(verify L u (SdkAppID u) key (Identifier u) n userbuf = Some ErrExpired)
           = (sint (Time u) + sint (Expire u) < sint n)" for n
    unfolding verify_first_failure
    by (auto simp add: verify_checks_def first_failure_def word_sless_alt sum)
  have next_second: "sint (Time u + Expire u + 1) = sint (Time u) + sint (Expire u) + 1"
    if "sint (Time u) + sint (Expire u) + 1 < 2 ^ 63"
  proof -
    have "sint (Time u + Expire u + 1) = sint (Time u + Expire u) + sint (1 :: int64)"
      using that assms(1) by (intro no_overflow_sint_add) (simp_all add: sum)
    then show ?thesis by (simp add: sum)
  qed
  have a: "verify L u (SdkAppID u) key (Identifier u) (Time u + Expire u) userbuf
      \<noteq> Some ErrExpired"
    unfolding iff by (simp add: sum)
  have b: "verify L u (SdkAppID u) key (Identifier u) (Time u + Expire u + 1) userbuf
      = Some ErrExpired" if "sint (Time u) + sint (Expire u) + 1 < 2 ^ 63"
    unfolding iff by (simp add: next_second [OF that])
  from iff [of now] a b show ?thesis by blast
qed

text \<open>A day-long token: valid at its last second, expired one second later.\<close>

theorem verify_expired_iff_witness:
  "verify sample_lib
     \<lparr>Version = ''2.0'', Identifier = ''alice'', SdkAppID = 1400000000, Expire = 86400,
      Time = 1700000000, UserBuf = None, Sig = None\<rparr>
     1400000000 ''key'' ''alice'' 1700086401 None = Some ErrExpired
   \<and> verify sample_lib
     \<lparr>Version = ''2.0'', Identifier = ''alice'', SdkAppID = 1400000000, Expire = 86400,
      Time = 1700000000, UserBuf = None, Sig = None\<rparr>
     1400000000 ''key'' ''alice'' 1700086400 None \<noteq> Some ErrExpired"
proof -
  note t = verify_expired_iff [of
     "\<lparr>Version = ''2.0'', Identifier = ''alice'', SdkAppID = 1400000000, Expire = 86400,
      Time = 1700000000, UserBuf = None, Sig = None\<rparr>" sample_lib "''key''" _ None,
     THEN conjunct1]
  from t [of 1700086401] t [of 1700086400] show ?thesis by simp
qed

text \<open>
  Claim C6 as it is written fails where an earlier check fails first: a document
  without a user buffer, verified with an expected buffer and another
  application id, gets the application mismatch error, not the user buffer one.
\<close>

theorem verify_userbuf_guard_counterexample:
  "UserBuf \<lparr>Version = ''2.0'', Identifier = ''alice'', SdkAppID = 1400000000, Expire = 86400,
      Time = 1700000000, UserBuf = None, Sig = None\<rparr> = None
   \<and> verify sample_lib
     \<lparr>Version = ''2.0'', Identifier = ''alice'', SdkAppID = 1400000000, Expire = 86400,
      Time = 1700000000, UserBuf = None, Sig = None\<rparr>
     1400000001 ''key'' ''alice'' 1700000000 (Some []) = Some ErrSdkAppIDNotMatch"
  by (simp add: verify_def)

text \<open>
  Claim C6, amended. For every document and expected buffer, when the
  application id, identifier and expiration checks pass, verification fails with
  the user buffer type mismatch error whenever exactly one of the expected
  buffer and the document's buffer is \<^verbatim>\<open>nil\<close>, in both directions, and with the
  user buffer mismatch error when both are present and their bytes differ.
\<close>

theorem verify_userbuf_errors:
  assumes "sdkappid = SdkAppID u" "userid = Identifier u" "\<not> Time u + Expire u <s now"
  shows "((userbuf = None) \<noteq> (UserBuf u = None) \<longrightarrow>
            verify L u sdkappid key userid now userbuf = Some ErrUserBufTypeNotMatch)
       \<and> (userbuf \<noteq> None \<and> UserBuf u \<noteq> None
            \<and> slice_bytes userbuf \<noteq> slice_bytes (UserBuf u) \<longrightarrow>
            verify L u sdkappid key userid now userbuf = Some ErrUserBufNotMatch)"
  by (simp add: verify_reaches_userbuf [OF assms])

text \<open>An expected buffer without one in the document, the reverse, and two buffers that differ.\<close>

theorem verify_userbuf_errors_witness:
  "verify sample_lib
     \<lparr>Version = ''2.0'', Identifier = ''alice'', SdkAppID = 1400000000, Expire = 86400,
      Time = 1700000000, UserBuf = None, Sig = None\<rparr>
     1400000000 ''key'' ''alice'' 1700000000 (Some []) = Some ErrUserBufTypeNotMatch
   \<and> verify sample_lib
     \<lparr>Version = ''2.0'', Identifier = ''alice'', SdkAppID = 1400000000, Expire = 86400,
      Time = 1700000000, UserBuf = Some [1, 2], Sig = None\<rparr>
     1400000000 ''key'' ''alice'' 1700000000 None = Some ErrUserBufTypeNotMatch
   \<and> verify sample_lib
     \<lparr>Version = ''2.0'', Identifier = ''alice'', SdkAppID = 1400000000, Expire = 86400,
      Time = 1700000000, UserBuf = Some [1, 2], Sig = None\<rparr>
     1400000000 ''key'' ''alice'' 1700000000 (Some [1, 3]) = Some ErrUserBufNotMatch"
  using verify_userbuf_errors [of 1400000000
     "\<lparr>Version = ''2.0'', Identifier = ''alice'', SdkAppID = 1400000000, Expire = 86400,
      Time = 1700000000, UserBuf = None, Sig = None\<rparr>" "''alice''" 1700000000 "Some []"
      sample_lib "''key''"]
    verify_userbuf_errors [of 1400000000
     "\<lparr>Version = ''2.0'', Identifier = ''alice'', SdkAppID = 1400000000, Expire = 86400,
      Time = 1700000000, UserBuf = Some [1, 2], Sig = None\<rparr>" "''alice''" 1700000000 None
      sample_lib "''key''"]
    verify_userbuf_errors [of 1400000000
     "\<lparr>Version = ''2.0'', Identifier = ''alice'', SdkAppID = 1400000000, Expire = 86400,
      Time = 1700000000, UserBuf = Some [1, 2], Sig = None\<rparr>" "''alice''" 1700000000
      "Some [1, 3]" sample_lib "''key''"]
  by (simp add: word_sless_alt slice_bytes_def)


text \<open>
  The difference of the two MACs is a property of the MAC: with a MAC that
  collides, \<^verbatim>\<open>sign\<close> returns the same bytes for both documents.
\<close>

lemma sign_with_colliding_mac:
  "sign (L\<lparr>hmac_sha256 := (\<lambda>key message. [])\<rparr>) u key
     = sign (L\<lparr>hmac_sha256 := (\<lambda>key message. [])\<rparr>) (u\<lparr>UserBuf := Some []\<rparr>) key"
  by (simp add: sign_message)


lemma signed_doc_fields [simp]:
  "Identifier (signed_doc L t a k i e b) = i"
  "SdkAppID (signed_doc L t a k i e b) = a"
  "Time (signed_doc L t a k i e b) = t"
  "Expire (signed_doc L t a k i e b) = e"
  "UserBuf (signed_doc L t a k i e b) = b"
  "Version (signed_doc L t a k i e b) = ''2.0''"
  by (simp_all add: signed_doc_def)

lemma signed_doc_Sig:
  "Sig (signed_doc L t a k i e b) = Some (sign L (signed_doc L t a k i e b) k)"
  by (simp add: signed_doc_def sign_message)


section \<open>The envelope\<close>

text \<open>
  Claim C1 does not hold of \<^verbatim>\<open>newUserSig\<close>: when the input decodes and decompresses
  but \<^verbatim>\<open>json.Unmarshal\<close> fails, the function returns the zero document with a
  \<^verbatim>\<open>nil\<close> error, where the four earlier failures return their error. The callers
  then verify the zero document.
\<close>

theorem newUserSig_drops_json_error:
  assumes "base64urlDecode L usersig = Inr b"
      and "zlib_NewReader L b = Inr r"
      and "ioutil_ReadAll L r = Inr (data, r')"
      and "zlib_ReaderClose L r' = None"
      and "json_Unmarshal L data = Inl err"
  shows "newUserSig L usersig = (userSig_zero, None)
       \<and> VerifyUserSig L sdkappid key userid usersig now =
           verify L userSig_zero sdkappid key userid now None"
  using assms by (simp add: newUserSig_def VerifyUserSig_def)

text \<open>In the sample library the empty string decodes to no bytes, which do not parse.\<close>

theorem newUserSig_drops_json_error_witness:
  "newUserSig sample_lib [] = (userSig_zero, None)
   \<and> VerifyUserSig sample_lib 0 ''key'' [] [] 0 = Some ErrSigNotMatch"
proof -
  have "json_Unmarshal sample_lib [] = Inl (LibraryError ''json: syntax error'')"
    by (simp add: sample_lib_def sample_Unmarshal_def sample_get_def)
  from newUserSig_drops_json_error [of sample_lib "[]" "[]" "[]" "[]" "[]" _ 0 "''key''" "[]" 0,
      OF _ _ _ _ this]
  show ?thesis
    by (simp add: sample_lib_def bytes_of_def verify_def userSig_zero_def bytes_Equal_def
          slice_bytes_def sign_message)
qed

text \<open>The failures of the four earlier stages are returned.\<close>

lemma newUserSig_earlier_errors:
  "base64urlDecode L usersig = Inl err \<Longrightarrow> newUserSig L usersig = (userSig_zero, Some err)"
  "base64urlDecode L usersig = Inr b \<Longrightarrow> zlib_NewReader L b = Inl err \<Longrightarrow>
     newUserSig L usersig = (userSig_zero, Some err)"
  "base64urlDecode L usersig = Inr b \<Longrightarrow> zlib_NewReader L b = Inr r \<Longrightarrow>
   ioutil_ReadAll L r = Inl err \<Longrightarrow> newUserSig L usersig = (userSig_zero, Some err)"
  "base64urlDecode L usersig = Inr b \<Longrightarrow> zlib_NewReader L b = Inr r \<Longrightarrow>
   ioutil_ReadAll L r = Inr (data, r') \<Longrightarrow> zlib_ReaderClose L r' = Some err \<Longrightarrow>
     newUserSig L usersig = (userSig_zero, Some err)"
  by (simp_all add: newUserSig_def)

lemma omitempty_bytes_slice [simp]: "slice_bytes (omitempty_bytes b) = slice_bytes b"
  by (simp add: omitempty_bytes_def slice_bytes_def split: option.splits)

text \<open>
  Well-formed strings are written as they are; a byte that starts no rune is
  written as the replacement rune.
\<close>

lemma to_valid_utf8_Nil [simp]: "to_valid_utf8 [] = []"
  by (simp add: to_valid_utf8.simps)

lemma to_valid_utf8_version [simp]: "to_valid_utf8 ''2.0'' = ''2.0''"
  by (simp add: to_valid_utf8.simps rune_size_def)

lemma to_valid_utf8_alice: "to_valid_utf8 ''alice'' = ''alice''"
  by (simp add: to_valid_utf8.simps rune_size_def)

lemma to_valid_utf8_FF: "to_valid_utf8 [CHR 0xFF] = [CHR 0xEF, CHR 0xBF, CHR 0xBD]"
  by (simp add: to_valid_utf8.simps rune_size_def replacement_rune_def)

text \<open>
  Decoding what was encoded gives the document back, but for the two strings,
  which come back coerced, and for a user buffer or a signature of length zero,
  which comes back \<^verbatim>\<open>nil\<close>.
\<close>

lemma unmarshal_marshal:
  "unmarshal_fields (marshal_fields u) =
     u\<lparr>Version := to_valid_utf8 (Version u), Identifier := to_valid_utf8 (Identifier u),
       UserBuf := omitempty_bytes (UserBuf u), Sig := omitempty_bytes (Sig u)\<rparr>"
  by (simp add: unmarshal_fields_def marshal_fields_def omitempty_string_def omitempty_number_def)

lemma pack_unpack:
  assumes "round_trips L
             (marshal_fields (signed_doc L currTime sdkappid key identifier expire userbuf))"
  shows "snd (genSig L currTime sdkappid key identifier expire userbuf) = None
       \<and> newUserSig L (fst (genSig L currTime sdkappid key identifier expire userbuf)) =
           (unmarshal_fields (marshal_fields
              (signed_doc L currTime sdkappid key identifier expire userbuf)), None)"
  using assms
  by (auto simp add: round_trips_def genSig_def newUserSig_def signed_doc_def Let_def
        split: sum.splits prod.splits option.splits)

lemma unpacked_fields:
  "Identifier (unmarshal_fields (marshal_fields (signed_doc L t a k i e b))) = to_valid_utf8 i"
  "SdkAppID (unmarshal_fields (marshal_fields (signed_doc L t a k i e b))) = a"
  "Time (unmarshal_fields (marshal_fields (signed_doc L t a k i e b))) = t"
  "Expire (unmarshal_fields (marshal_fields (signed_doc L t a k i e b))) = e"
  "UserBuf (unmarshal_fields (marshal_fields (signed_doc L t a k i e b))) = omitempty_bytes b"
  "slice_bytes (Sig (unmarshal_fields (marshal_fields (signed_doc L t a k i e b)))) =
     sign L (signed_doc L t a k i e b) k"
  using omitempty_bytes_slice [of "Some (sign L (signed_doc L t a k i e b) k)"]
  by (simp_all add: unmarshal_marshal signed_doc_Sig) (simp add: slice_bytes_def)

lemma sless_add_no_overflow:
  fixes t e :: int64
  assumes "0 <s e" "sint t + sint e < 2 ^ 63"
  shows "\<not> t + e <s t"
proof -
  have pos: "0 < sint e" using assms(1) by (simp add: word_sless_alt)
  have "- (2 ^ 63) \<le> sint t" using sint_ge [of t] by simp
  with pos have "- (2 ^ 63) \<le> sint t + sint e" by simp
  then have "sint (t + e) = sint t + sint e"
    using assms(2) by (rule no_overflow_sint_add)
  with pos show ?thesis by (simp add: word_sless_alt)
qed







end
